theory Spec2Isabelle
  imports Complex_Main
begin

section \<open>Spatial entities of the games framework (\<^verbatim>\<open>gf.sim.SpatialEntity\<close>)\<close>

text \<open>
  A shallow embedding of \<^verbatim>\<open>src/gf/sim/spatialentity.js\<close>: the replicated state
  (\<^verbatim>\<open>gf.sim.SpatialEntity.State\<close>) and the entity that caches a transform matrix
  and a bounding sphere computed from it.

  Objects. An object reference is a \<^typ>\<open>nat\<close>; the objects live in a store, and a
  method takes the reference of \<^verbatim>\<open>this\<close> and the store and returns the store it
  leaves. \<^verbatim>\<open>null\<close> and \<^verbatim>\<open>undefined\<close> are \<^term>\<open>None\<close>.
\<close>

subsection \<open>Numbers\<close>

text \<open>
  A JavaScript number is an IEEE 754 binary64 value: \<^verbatim>\<open>NaN\<close>, an infinity or a finite
  number. The two zeros are the one value \<open>Fin 0\<close>: \<^verbatim>\<open>==\<close>, \<^verbatim>\<open>!\<close>, the arithmetic,
  \<^verbatim>\<open>Math.max\<close> and the stores used below give results that agree up to the sign of a
  zero whichever zero they are given. An element of a \<^verbatim>\<open>Float32Array\<close> is a number that is
  a binary32 value.
\<close>

datatype number = NaN | PInf | NInf | Fin real

text \<open>
  Rounding to the nearest, ties to even, in a binary format of precision \<open>p\<close> whose
  normal exponents run from \<open>emin\<close> to \<open>emax\<close>: the exponent of \<open>x\<close> (not below
  \<open>emin\<close>, where the subnormal numbers lie) gives the spacing \<open>q\<close> of the format near
  \<open>x\<close>; \<open>x\<close> goes to the nearest multiple of \<open>q\<close>, and to an infinity when that
  multiple is beyond the largest finite number.
\<close>

definition round_half_even :: "real \<Rightarrow> int" where
  "round_half_even x =
     (let f = \<lfloor>x\<rfloor>; d = x - of_int f in
      if d < 1 / 2 then f
      else if 1 / 2 < d then f + 1
      else if even f then f else f + 1)"

definition round_to :: "int \<Rightarrow> int \<Rightarrow> int \<Rightarrow> real \<Rightarrow> number" where
  "round_to p emin emax x =
     (if x = 0 then Fin 0
      else
        let e = max emin \<lfloor>log 2 \<bar>x\<bar>\<rfloor>;
            q = 2 powi (e - p + 1);
            y = of_int (round_half_even (x / q)) * q
        in if 2 powi (emax + 1) \<le> \<bar>y\<bar> then (if 0 < x then PInf else NInf) else Fin y)"

text \<open>
  \<open>dround\<close> is the rounding of an exact result to binary64, which every arithmetic
  operation of JavaScript ends with; \<open>fround\<close> is the rounding of a number to binary32
  (\<^verbatim>\<open>Math.fround\<close>), which a store into a \<^verbatim>\<open>Float32Array\<close> applies.
\<close>

definition dround :: "real \<Rightarrow> number" where
  "dround = round_to 53 (- 1022) 1023"

definition fround_real :: "real \<Rightarrow> number" where
  "fround_real = round_to 24 (- 126) 127"

definition fround :: "number \<Rightarrow> number" where
  "fround x = (case x of Fin r \<Rightarrow> fround_real r | _ \<Rightarrow> x)"

text \<open>A finite binary32 value: a finite number that a store into a \<^verbatim>\<open>Float32Array\<close> keeps.\<close>

definition finite32 :: "number \<Rightarrow> bool" where
  "finite32 x = (case x of Fin r \<Rightarrow> fround_real r = Fin r | _ \<Rightarrow> False)"

text \<open>The operators \<^verbatim>\<open>*\<close>, \<^verbatim>\<open>+\<close>, \<^verbatim>\<open>-\<close> and \<^verbatim>\<open>Math.max\<close> of two numbers.\<close>

definition js_negative :: "number \<Rightarrow> bool" where
  "js_negative a = (case a of NInf \<Rightarrow> True | Fin x \<Rightarrow> x < 0 | _ \<Rightarrow> False)"

definition js_neg :: "number \<Rightarrow> number" where
  "js_neg a = (case a of NaN \<Rightarrow> NaN | PInf \<Rightarrow> NInf | NInf \<Rightarrow> PInf | Fin x \<Rightarrow> Fin (- x))"

definition js_mul :: "number \<Rightarrow> number \<Rightarrow> number" where
  "js_mul a b =
     (case (a, b) of
        (Fin x, Fin y) \<Rightarrow> dround (x * y)
      | _ \<Rightarrow>
          if a = NaN \<or> b = NaN \<or> a = Fin 0 \<or> b = Fin 0 then NaN
          else if js_negative a = js_negative b then PInf else NInf)"

definition js_add :: "number \<Rightarrow> number \<Rightarrow> number" where
  "js_add a b =
     (case (a, b) of
        (Fin x, Fin y) \<Rightarrow> dround (x + y)
      | _ \<Rightarrow>
          if a = NaN \<or> b = NaN then NaN
          else if (a = PInf \<and> b = NInf) \<or> (a = NInf \<and> b = PInf) then NaN
          else if a = PInf \<or> b = PInf then PInf else NInf)"

definition js_sub :: "number \<Rightarrow> number \<Rightarrow> number" where
  "js_sub a b = js_add a (js_neg b)"

definition js_max :: "number \<Rightarrow> number \<Rightarrow> number" where
  "js_max a b =
     (case (a, b) of
        (Fin x, Fin y) \<Rightarrow> Fin (max x y)
      | _ \<Rightarrow>
          if a = NaN \<or> b = NaN then NaN
          else if a = PInf \<or> b = PInf then PInf
          else if a = NInf then b else a)"

text \<open>
  \<^verbatim>\<open>a == b\<close> of two numbers is false when one is \<^verbatim>\<open>NaN\<close>. \<^verbatim>\<open>!x\<close> of a number is
  true exactly when the number is falsy: a zero or \<^verbatim>\<open>NaN\<close>. A loose comparison of a
  boolean with a number compares the number with 1 for \<^verbatim>\<open>true\<close> and with 0 for
  \<^verbatim>\<open>false\<close>.
\<close>

definition js_eq :: "number \<Rightarrow> number \<Rightarrow> bool" where
  "js_eq a b = (a \<noteq> NaN \<and> a = b)"

definition js_not :: "number \<Rightarrow> bool" where
  "js_not x = (x = Fin 0 \<or> x = NaN)"

definition js_ToNumber :: "bool \<Rightarrow> number" where
  "js_ToNumber b = (if b then Fin 1 else Fin 0)"

definition js_loose_neq :: "bool \<Rightarrow> number \<Rightarrow> bool" where
  "js_loose_neq b x = (\<not> js_eq (js_ToNumber b) x)"

subsection \<open>Vectors and matrices of the Closure library (\<^verbatim>\<open>goog.vec\<close>)\<close>

text \<open>
  The Closure library is not among the sources of the repository; the functions of it
  the entity uses are written here as the library defines them.

  \<^verbatim>\<open>goog.vec.Vec3\<close>, \<^verbatim>\<open>goog.vec.Vec4\<close> and \<^verbatim>\<open>goog.vec.Quaternion\<close> are arrays
  of 3, 4 and 4 numbers; the selectors are the indices. \<^verbatim>\<open>goog.vec.Mat4\<close> is an array
  of 16 numbers in column-major order: \<open>m (4 * c + r)\<close> is row \<open>r\<close> of column \<open>c\<close>.
  The arrays the entity and its state hold are \<^verbatim>\<open>Float32Array\<close>s, and so are, by their
  declared types, the arrays a caller passes: a store into one rounds with \<open>fround\<close>.
\<close>

datatype vec3 = Vec3 (v0: number) (v1: number) (v2: number)

datatype vec4 = Vec4 (q0: number) (q1: number) (q2: number) (q3: number)

datatype 'a matrix4 = Mat4
  (m0: 'a) (m1: 'a) (m2: 'a) (m3: 'a)
  (m4: 'a) (m5: 'a) (m6: 'a) (m7: 'a)
  (m8: 'a) (m9: 'a) (m10: 'a) (m11: 'a)
  (m12: 'a) (m13: 'a) (m14: 'a) (m15: 'a)

type_synonym mat4 = "number matrix4"

text \<open>\<^verbatim>\<open>createFloat32()\<close> is \<^verbatim>\<open>new Float32Array(n)\<close>: every element is zero.\<close>

definition Vec3_createFloat32 :: vec3 where
  "Vec3_createFloat32 = Vec3 (Fin 0) (Fin 0) (Fin 0)"

definition Vec4_createFloat32 :: vec4 where
  "Vec4_createFloat32 = Vec4 (Fin 0) (Fin 0) (Fin 0) (Fin 0)"

definition Quaternion_createFloat32 :: vec4 where
  "Quaternion_createFloat32 = Vec4_createFloat32"

definition Mat4_createFloat32 :: mat4 where
  "Mat4_createFloat32 = Mat4 (Fin 0) (Fin 0) (Fin 0) (Fin 0) (Fin 0) (Fin 0) (Fin 0) (Fin 0)
     (Fin 0) (Fin 0) (Fin 0) (Fin 0) (Fin 0) (Fin 0) (Fin 0) (Fin 0)"

text \<open>
  \<^verbatim>\<open>equals(v0, v1)\<close> compares the elements with \<^verbatim>\<open>==\<close>; \<^verbatim>\<open>setFromArray(vec, values)\<close>
  stores every element of \<^verbatim>\<open>values\<close> into \<^verbatim>\<open>vec\<close> and returns it.
\<close>

definition Vec3_equals :: "vec3 \<Rightarrow> vec3 \<Rightarrow> bool" where
  "Vec3_equals a b = (js_eq (v0 a) (v0 b) \<and> js_eq (v1 a) (v1 b) \<and> js_eq (v2 a) (v2 b))"

definition Vec4_equals :: "vec4 \<Rightarrow> vec4 \<Rightarrow> bool" where
  "Vec4_equals a b =
     (js_eq (q0 a) (q0 b) \<and> js_eq (q1 a) (q1 b) \<and> js_eq (q2 a) (q2 b) \<and> js_eq (q3 a) (q3 b))"

definition Vec3_setFromArray :: "vec3 \<Rightarrow> vec3 \<Rightarrow> vec3" where
  "Vec3_setFromArray vec values =
     Vec3 (fround (v0 values)) (fround (v1 values)) (fround (v2 values))"

definition Vec4_setFromArray :: "vec4 \<Rightarrow> vec4 \<Rightarrow> vec4" where
  "Vec4_setFromArray vec values =
     Vec4 (fround (q0 values)) (fround (q1 values)) (fround (q2 values)) (fround (q3 values))"

definition Quaternion_setFromArray :: "vec4 \<Rightarrow> vec4 \<Rightarrow> vec4" where
  "Quaternion_setFromArray = Vec4_setFromArray"

definition Mat4_setFromArray :: "mat4 \<Rightarrow> mat4 \<Rightarrow> mat4" where
  "Mat4_setFromArray mat values = Mat4
     (fround (m0 values)) (fround (m1 values)) (fround (m2 values)) (fround (m3 values))
     (fround (m4 values)) (fround (m5 values)) (fround (m6 values)) (fround (m7 values))
     (fround (m8 values)) (fround (m9 values)) (fround (m10 values)) (fround (m11 values))
     (fround (m12 values)) (fround (m13 values)) (fround (m14 values)) (fround (m15 values))"

subsection \<open>The objects\<close>

type_synonym ref = nat

text \<open>
  The base classes \<^verbatim>\<open>gf.sim.Entity\<close> and \<^verbatim>\<open>gf.sim.EntityState\<close> are not part of
  the file; the fields below are what this file uses of them. An entity has a parent
  (\<^verbatim>\<open>getParent()\<close>) and may expose the method \<^verbatim>\<open>childTransformed\<close>; an entity state
  keeps the dirty bits of its variables, here the set of the ordinals marked dirty.
  A private field \<^verbatim>\<open>name_\<close> of the source is the field \<open>name\<close> of the record.
\<close>

record Entity =
  parent :: "ref option"
  has_childTransformed :: bool

record EntityState =
  dirtyBits :: "nat set"

record State = EntityState +
  position :: vec3
  positionOrdinal :: nat
  rotation :: vec4
  rotationOrdinal :: nat
  scale :: vec3
  scaleOrdinal :: nat
  boundingRadius :: number
  boundingRadiusOrdinal :: nat

record SpatialEntity = Entity +
  transformDirty :: bool
  boundingSphere :: vec4
  transform :: mat4
  state :: State

text \<open>
  An object of the store is a spatial entity or an entity of another class
  (\<^verbatim>\<open>instanceof gf.sim.SpatialEntity\<close> asks which).
\<close>

datatype obj = SpatialObj SpatialEntity | EntityObj Entity

datatype log_entry =
  LogSetPosition number number number
| LogSetRotation number number number number

text \<open>
  The store, with the two traces of what leaves the file: the lines given to
  \<^verbatim>\<open>gf.log.write\<close> and the calls \<^verbatim>\<open>parent.childTransformed(child)\<close>, as pairs
  (parent, child).
\<close>

record world =
  objs :: "ref \<Rightarrow> obj option"
  logged :: "log_entry list"
  notifications :: "(ref \<times> ref) list"

definition getParent :: "obj \<Rightarrow> ref option" where
  "getParent ob = (case ob of SpatialObj e \<Rightarrow> parent e | EntityObj e \<Rightarrow> parent e)"

definition exposes_childTransformed :: "obj \<Rightarrow> bool" where
  "exposes_childTransformed ob =
     (case ob of SpatialObj e \<Rightarrow> has_childTransformed e | EntityObj e \<Rightarrow> has_childTransformed e)"

definition log_write :: "log_entry \<Rightarrow> world \<Rightarrow> world" where
  "log_write l w = w\<lparr>logged := logged w @ [l]\<rparr>"

text \<open>
  Modelled from the spec: \<^verbatim>\<open>gf.sim.EntityState.prototype.setVariableDirty\<close> is
  missing from the source; the spec gives it as the dirty-bit storage of the base state,
  one bit per ordinal. It sets the bit of the ordinal.
\<close>

definition setVariableDirty :: "nat \<Rightarrow> State \<Rightarrow> State" where
  "setVariableDirty ordinal s = s\<lparr>dirtyBits := insert ordinal (dirtyBits s)\<rparr>"

text \<open>
  Modelled from the spec: the method \<^verbatim>\<open>childTransformed\<close> of a parent is missing
  from the source; the spec gives it as a notification whose result is not used. The
  call is recorded.
\<close>

definition childTransformed :: "ref \<Rightarrow> ref \<Rightarrow> world \<Rightarrow> world" where
  "childTransformed p child w = w\<lparr>notifications := notifications w @ [(p, child)]\<rparr>"

subsection \<open>The state: getters and setters\<close>

definition getPosition :: "State \<Rightarrow> vec3" where
  "getPosition s = position s"

definition getRotation :: "State \<Rightarrow> vec4" where
  "getRotation s = rotation s"

definition getScale :: "State \<Rightarrow> vec3" where
  "getScale s = scale s"

definition getBoundingRadius :: "State \<Rightarrow> number" where
  "getBoundingRadius s = boundingRadius s"

definition invalidateTransform_entity :: "SpatialEntity \<Rightarrow> SpatialEntity" where
  "invalidateTransform_entity e = e\<lparr>transformDirty := True\<rparr>"

text \<open>
  A setter is a method of the state and reaches the entity through \<^verbatim>\<open>this.entity\<close>;
  the state is stored inside its entity, so the setter takes the entity's reference.
  On a reference that is not a spatial entity (no such call exists in JavaScript) the
  store is returned as it is.
\<close>

definition setPosition :: "ref \<Rightarrow> vec3 \<Rightarrow> world \<Rightarrow> world" where
  "setPosition this val w =
     (case objs w this of
        Some (SpatialObj e) \<Rightarrow>
          if \<not> Vec3_equals (position (state e)) val then
            let w1 = log_write (LogSetPosition (v0 val) (v1 val) (v2 val)) w;
                s1 = (state e)\<lparr>position := Vec3_setFromArray (position (state e)) val\<rparr>;
                s2 = setVariableDirty (positionOrdinal s1) s1;
                e1 = invalidateTransform_entity (e\<lparr>state := s2\<rparr>)
            in w1\<lparr>objs := (objs w1)(this \<mapsto> SpatialObj e1)\<rparr>
          else w
      | _ \<Rightarrow> w)"

definition setRotation :: "ref \<Rightarrow> vec4 \<Rightarrow> world \<Rightarrow> world" where
  "setRotation this val w =
     (case objs w this of
        Some (SpatialObj e) \<Rightarrow>
          if \<not> Vec4_equals (rotation (state e)) val then
            let w1 = log_write (LogSetRotation (q0 val) (q1 val) (q2 val) (q3 val)) w;
                s1 = (state e)\<lparr>rotation := Quaternion_setFromArray (rotation (state e)) val\<rparr>;
                s2 = setVariableDirty (rotationOrdinal s1) s1;
                e1 = invalidateTransform_entity (e\<lparr>state := s2\<rparr>)
            in w1\<lparr>objs := (objs w1)(this \<mapsto> SpatialObj e1)\<rparr>
          else w
      | _ \<Rightarrow> w)"

definition setScale :: "ref \<Rightarrow> vec3 \<Rightarrow> world \<Rightarrow> world" where
  "setScale this val w =
     (case objs w this of
        Some (SpatialObj e) \<Rightarrow>
          if \<not> Vec3_equals (scale (state e)) val then
            let s1 = (state e)\<lparr>scale := Vec3_setFromArray (scale (state e)) val\<rparr>;
                s2 = setVariableDirty (scaleOrdinal s1) s1;
                e1 = invalidateTransform_entity (e\<lparr>state := s2\<rparr>)
            in w\<lparr>objs := (objs w)(this \<mapsto> SpatialObj e1)\<rparr>
          else w
      | _ \<Rightarrow> w)"

text \<open>
  The test of \<^verbatim>\<open>setBoundingRadius\<close> is \<^verbatim>\<open>!this.boundingRadius_ != value\<close>: the
  negation binds first, so a boolean is compared with the number. The radius is an
  ordinary field, so the value is stored as it is.
\<close>

definition setBoundingRadius :: "ref \<Rightarrow> number \<Rightarrow> world \<Rightarrow> world" where
  "setBoundingRadius this val w =
     (case objs w this of
        Some (SpatialObj e) \<Rightarrow>
          if js_loose_neq (js_not (boundingRadius (state e))) val then
            let s1 = (state e)\<lparr>boundingRadius := val\<rparr>;
                s2 = setVariableDirty (boundingRadiusOrdinal s1) s1;
                e1 = invalidateTransform_entity (e\<lparr>state := s2\<rparr>)
            in w\<lparr>objs := (objs w)(this \<mapsto> SpatialObj e1)\<rparr>
          else w
      | _ \<Rightarrow> w)"

subsection \<open>The matrix functions used by the entity\<close>

text \<open>
  \<^verbatim>\<open>goog.vec.Mat4.multMat(mat0, mat1, resultMat)\<close> is the matrix product
  \<open>mat0 \<cdot> mat1\<close>: every element is the sum, from left to right, of four products, as
  the library writes it, and is stored into \<^verbatim>\<open>resultMat\<close>.
\<close>

definition multMat :: "mat4 \<Rightarrow> mat4 \<Rightarrow> mat4" where
  "multMat a b = Mat4
     (fround (js_add (js_add (js_add (js_mul (m0 a) (m0 b)) (js_mul (m4 a) (m1 b))) (js_mul (m8 a) (m2 b))) (js_mul (m12 a) (m3 b))))
     (fround (js_add (js_add (js_add (js_mul (m1 a) (m0 b)) (js_mul (m5 a) (m1 b))) (js_mul (m9 a) (m2 b))) (js_mul (m13 a) (m3 b))))
     (fround (js_add (js_add (js_add (js_mul (m2 a) (m0 b)) (js_mul (m6 a) (m1 b))) (js_mul (m10 a) (m2 b))) (js_mul (m14 a) (m3 b))))
     (fround (js_add (js_add (js_add (js_mul (m3 a) (m0 b)) (js_mul (m7 a) (m1 b))) (js_mul (m11 a) (m2 b))) (js_mul (m15 a) (m3 b))))
     (fround (js_add (js_add (js_add (js_mul (m0 a) (m4 b)) (js_mul (m4 a) (m5 b))) (js_mul (m8 a) (m6 b))) (js_mul (m12 a) (m7 b))))
     (fround (js_add (js_add (js_add (js_mul (m1 a) (m4 b)) (js_mul (m5 a) (m5 b))) (js_mul (m9 a) (m6 b))) (js_mul (m13 a) (m7 b))))
     (fround (js_add (js_add (js_add (js_mul (m2 a) (m4 b)) (js_mul (m6 a) (m5 b))) (js_mul (m10 a) (m6 b))) (js_mul (m14 a) (m7 b))))
     (fround (js_add (js_add (js_add (js_mul (m3 a) (m4 b)) (js_mul (m7 a) (m5 b))) (js_mul (m11 a) (m6 b))) (js_mul (m15 a) (m7 b))))
     (fround (js_add (js_add (js_add (js_mul (m0 a) (m8 b)) (js_mul (m4 a) (m9 b))) (js_mul (m8 a) (m10 b))) (js_mul (m12 a) (m11 b))))
     (fround (js_add (js_add (js_add (js_mul (m1 a) (m8 b)) (js_mul (m5 a) (m9 b))) (js_mul (m9 a) (m10 b))) (js_mul (m13 a) (m11 b))))
     (fround (js_add (js_add (js_add (js_mul (m2 a) (m8 b)) (js_mul (m6 a) (m9 b))) (js_mul (m10 a) (m10 b))) (js_mul (m14 a) (m11 b))))
     (fround (js_add (js_add (js_add (js_mul (m3 a) (m8 b)) (js_mul (m7 a) (m9 b))) (js_mul (m11 a) (m10 b))) (js_mul (m15 a) (m11 b))))
     (fround (js_add (js_add (js_add (js_mul (m0 a) (m12 b)) (js_mul (m4 a) (m13 b))) (js_mul (m8 a) (m14 b))) (js_mul (m12 a) (m15 b))))
     (fround (js_add (js_add (js_add (js_mul (m1 a) (m12 b)) (js_mul (m5 a) (m13 b))) (js_mul (m9 a) (m14 b))) (js_mul (m13 a) (m15 b))))
     (fround (js_add (js_add (js_add (js_mul (m2 a) (m12 b)) (js_mul (m6 a) (m13 b))) (js_mul (m10 a) (m14 b))) (js_mul (m14 a) (m15 b))))
     (fround (js_add (js_add (js_add (js_mul (m3 a) (m12 b)) (js_mul (m7 a) (m13 b))) (js_mul (m11 a) (m14 b))) (js_mul (m15 a) (m15 b))))"

text \<open>
  \<^verbatim>\<open>goog.vec.Mat4.makeScale\<close> and \<^verbatim>\<open>goog.vec.Mat4.makeTranslate\<close>: the scale
  matrix \<open>diag (x, y, z, 1)\<close> and the translation matrix, whose last column is
  \<open>(x, y, z, 1)\<close>. \<^verbatim>\<open>goog.vec.Mat4.multVec3\<close> applies a matrix to a point (the fourth
  coordinate of the point is 1) and stores the result.
\<close>

definition makeScale :: "number \<Rightarrow> number \<Rightarrow> number \<Rightarrow> mat4" where
  "makeScale x y z = Mat4
     (fround x) (Fin 0) (Fin 0) (Fin 0)
     (Fin 0) (fround y) (Fin 0) (Fin 0)
     (Fin 0) (Fin 0) (fround z) (Fin 0)
     (Fin 0) (Fin 0) (Fin 0) (Fin 1)"

definition makeTranslate :: "number \<Rightarrow> number \<Rightarrow> number \<Rightarrow> mat4" where
  "makeTranslate x y z = Mat4
     (Fin 1) (Fin 0) (Fin 0) (Fin 0)
     (Fin 0) (Fin 1) (Fin 0) (Fin 0)
     (Fin 0) (Fin 0) (Fin 1) (Fin 0)
     (fround x) (fround y) (fround z) (Fin 1)"


text \<open>
  \<^verbatim>\<open>goog.vec.Quaternion.toRotationMatrix4(quat, mat)\<close>: the rotation matrix of the
  quaternion \<open>(x, y, z, w)\<close>, stored into \<^verbatim>\<open>mat\<close>.
\<close>

definition toRotationMatrix4 :: "vec4 \<Rightarrow> mat4" where
  "toRotationMatrix4 quat =
     (let x = q0 quat; y = q1 quat; z = q2 quat; w = q3 quat;
          x2 = js_mul (Fin 2) x; y2 = js_mul (Fin 2) y; z2 = js_mul (Fin 2) z;
          wx = js_mul x2 w; wy = js_mul y2 w; wz = js_mul z2 w;
          xx = js_mul x2 x; xy = js_mul y2 x; xz = js_mul z2 x;
          yy = js_mul y2 y; yz = js_mul z2 y; zz = js_mul z2 z
      in Mat4
           (fround (js_sub (Fin 1) (js_add yy zz))) (fround (js_add xy wz))
           (fround (js_sub xz wy)) (Fin 0)
           (fround (js_sub xy wz)) (fround (js_sub (Fin 1) (js_add xx zz)))
           (fround (js_add yz wx)) (Fin 0)
           (fround (js_add xz wy)) (fround (js_sub yz wx))
           (fround (js_sub (Fin 1) (js_add xx yy))) (Fin 0)
           (Fin 0) (Fin 0) (Fin 0) (Fin 1))"

text \<open>
  Modelled from the spec: \<^verbatim>\<open>gf.vec.Mat4.multScalePost\<close> and
  \<^verbatim>\<open>gf.vec.Mat4.multTranslationPre\<close> are missing from the source. The spec gives the
  matrix of \<^verbatim>\<open>updateTransform\<close> as
  \<open>Translate(position) \<cdot> RotationMatrixFromQuaternion(rotation) \<cdot> Scale(scale)\<close> and
  names the two functions as the scale and translate compositions of the matrix
  library: \<^verbatim>\<open>multScalePost(mat, x, y, z, resultMat)\<close> multiplies a scale matrix onto
  \<^verbatim>\<open>mat\<close> from the right, \<^verbatim>\<open>multTranslationPre(x, y, z, mat, resultMat)\<close> a
  translation matrix from the left; the product is the library's.
\<close>

definition multScalePost :: "mat4 \<Rightarrow> number \<Rightarrow> number \<Rightarrow> number \<Rightarrow> mat4" where
  "multScalePost mat x y z = multMat mat (makeScale x y z)"

definition multTranslationPre :: "number \<Rightarrow> number \<Rightarrow> number \<Rightarrow> mat4 \<Rightarrow> mat4" where
  "multTranslationPre x y z mat = multMat (makeTranslate x y z) mat"

subsection \<open>The constructors\<close>

text \<open>
  The tags of the four variables (\<^verbatim>\<open>gf.sim.SpatialEntity.State.tags_\<close>) come from
  \<^verbatim>\<open>gf.sim.Variable.getUniqueTag()\<close> and the ordinals from the variable table's
  \<^verbatim>\<open>getOrdinal\<close>; both are missing from the source and are parameters here. The base
  constructor leaves no variable dirty.
\<close>

record tags =
  tag_position :: nat
  tag_rotation :: nat
  tag_scale :: nat
  tag_boundingRadius :: nat

definition new_State :: "tags \<Rightarrow> (nat \<Rightarrow> nat) \<Rightarrow> State" where
  "new_State tgs getOrdinal =
     \<lparr> dirtyBits = {},
       position = Vec3_createFloat32,
       positionOrdinal = getOrdinal (tag_position tgs),
       rotation = Quaternion_createFloat32,
       rotationOrdinal = getOrdinal (tag_rotation tgs),
       scale = Vec3_createFloat32,
       scaleOrdinal = getOrdinal (tag_scale tgs),
       boundingRadius = Fin 0,
       boundingRadiusOrdinal = getOrdinal (tag_boundingRadius tgs) \<rparr>"

text \<open>
  The constructor of the entity extends what the base constructor built (\<open>base\<close>) and
  is given the state the entity holds (\<^verbatim>\<open>getState()\<close>).
\<close>

definition new_SpatialEntity :: "Entity \<Rightarrow> State \<Rightarrow> SpatialEntity" where
  "new_SpatialEntity base st =
     \<lparr> parent = parent base,
       has_childTransformed = has_childTransformed base,
       transformDirty = True,
       boundingSphere = Vec4_createFloat32,
       transform = Mat4_createFloat32,
       state = st \<rparr>"

subsection \<open>The entity: invalidation and the cached transform\<close>

definition spatial :: "world \<Rightarrow> ref \<Rightarrow> SpatialEntity option" where
  "spatial w r = (case objs w r of Some (SpatialObj e) \<Rightarrow> Some e | _ \<Rightarrow> None)"

definition postNetworkUpdate :: "ref \<Rightarrow> world \<Rightarrow> world" where
  "postNetworkUpdate this w =
     (case objs w this of
        Some (SpatialObj e) \<Rightarrow> w\<lparr>objs := (objs w)(this \<mapsto> SpatialObj (e\<lparr>transformDirty := True\<rparr>))\<rparr>
      | _ \<Rightarrow> w)"

definition invalidateTransform :: "ref \<Rightarrow> world \<Rightarrow> world" where
  "invalidateTransform this w =
     (case objs w this of
        Some (SpatialObj e) \<Rightarrow> w\<lparr>objs := (objs w)(this \<mapsto> SpatialObj (invalidateTransform_entity e))\<rparr>
      | _ \<Rightarrow> w)"

text \<open>
  The two caches \<^verbatim>\<open>updateTransform\<close> writes, as functions of the state: the lines
  110 to 114 and 117 to 122 of the source. Both are \<^verbatim>\<open>Float32Array\<close>s; the product in
  line 113 is one of two numbers and is rounded when it is stored.
\<close>

definition sphere_of :: "State \<Rightarrow> vec4" where
  "sphere_of st =
     (let position = getPosition st; scale = getScale st in
      Vec4 (fround (v0 position)) (fround (v1 position)) (fround (v2 position))
           (fround (js_mul (getBoundingRadius st)
              (js_max (v0 scale) (js_max (v1 scale) (v2 scale))))))"

definition matrix_of :: "State \<Rightarrow> mat4" where
  "matrix_of st =
     (let position = getPosition st; rotation = getRotation st; scale = getScale st;
          t1 = toRotationMatrix4 rotation;
          t2 = multScalePost t1 (v0 scale) (v1 scale) (v2 scale)
      in multTranslationPre (v0 position) (v1 position) (v2 position) t2)"

definition notify_parent :: "ref \<Rightarrow> world \<Rightarrow> world" where
  "notify_parent this w =
     (case objs w this of
        None \<Rightarrow> w
      | Some ob \<Rightarrow>
          (case getParent ob of
             None \<Rightarrow> w
           | Some p \<Rightarrow>
               (case objs w p of
                  None \<Rightarrow> w
                | Some po \<Rightarrow> if exposes_childTransformed po then childTransformed p this w else w)))"

definition updateTransform :: "ref \<Rightarrow> world \<Rightarrow> world" where
  "updateTransform this w =
     (case objs w this of
        Some (SpatialObj e) \<Rightarrow>
          if \<not> transformDirty e then w
          else
            let e1 = e\<lparr>transformDirty := False\<rparr>;
                e2 = e1\<lparr>boundingSphere := sphere_of (state e1)\<rparr>;
                e3 = e2\<lparr>transform := matrix_of (state e2)\<rparr>
            in notify_parent this (w\<lparr>objs := (objs w)(this \<mapsto> SpatialObj e3)\<rparr>)
      | _ \<Rightarrow> w)"

text \<open>
  \<^verbatim>\<open>getBoundingSphere(result)\<close> and \<^verbatim>\<open>getTransform(result, opt_relativeToParent)\<close>
  write into the array the caller gives and return it; the model returns the store
  and the array.
\<close>

definition getBoundingSphere :: "ref \<Rightarrow> vec4 \<Rightarrow> world \<Rightarrow> world \<times> vec4" where
  "getBoundingSphere this result w =
     (case spatial w this of
        None \<Rightarrow> (w, result)
      | Some e \<Rightarrow>
          let w1 = (if transformDirty e then updateTransform this w else w) in
          (case spatial w1 this of
             None \<Rightarrow> (w1, result)
           | Some e1 \<Rightarrow> (w1, Vec4_setFromArray result (boundingSphere e1))))"

text \<open>
  The walk up the tree, lines 170 to 176. The loop may run forever, so it is a partial
  function: \<^term>\<open>None\<close> is the call that does not return. The next node is read by
  \<^verbatim>\<open>this.getParent()\<close>, the parent of the entity the method was called on.
\<close>

definition parent_of :: "world \<Rightarrow> ref \<Rightarrow> ref option" where
  "parent_of w r = (case objs w r of None \<Rightarrow> None | Some ob \<Rightarrow> getParent ob)"

definition apply_ancestor :: "world \<Rightarrow> ref option \<Rightarrow> mat4 \<Rightarrow> mat4" where
  "apply_ancestor w current result =
     (case current of
        None \<Rightarrow> result
      | Some c \<Rightarrow>
          (case objs w c of
             Some (SpatialObj a) \<Rightarrow> multMat (transform a) result
           | _ \<Rightarrow> result))"

partial_function (option) getTransform_walk ::
  "world \<Rightarrow> ref \<Rightarrow> ref option \<Rightarrow> ref option \<Rightarrow> mat4 \<Rightarrow> mat4 option" where
  "getTransform_walk w this untilParent current result =
     (if current \<noteq> untilParent then
        getTransform_walk w this untilParent (parent_of w this) (apply_ancestor w current result)
      else Some result)"

definition getTransform :: "ref \<Rightarrow> mat4 \<Rightarrow> ref option \<Rightarrow> world \<Rightarrow> (world \<times> mat4) option" where
  "getTransform this result opt_relativeToParent w =
     (case spatial w this of
        None \<Rightarrow> Some (w, result)
      | Some e \<Rightarrow>
          let w1 = (if transformDirty e then updateTransform this w else w) in
          (case spatial w1 this of
             None \<Rightarrow> Some (w1, result)
           | Some e1 \<Rightarrow>
               let result1 = Mat4_setFromArray result (transform e1);
                   untilParent = opt_relativeToParent;
                   current = parent_of w1 this
               in map_option (Pair w1) (getTransform_walk w1 this untilParent current result1)))"

subsection \<open>The declaration of the variables\<close>

text \<open>
  A variable descriptor is built by one of the constructors of \<^verbatim>\<open>gf.sim.Variable\<close>
  from a tag, the flags, a getter and a setter; the constructor for a quaternion takes a
  fifth argument. The flags are the set of the \<^verbatim>\<open>gf.sim.VariableFlag\<close> values joined
  by \<^verbatim>\<open>|\<close>. The declaration of the base class \<^verbatim>\<open>gf.sim.EntityState\<close> is missing from
  the source and is a parameter: the list it leaves.
\<close>

datatype VariableFlag = UPDATED_FREQUENTLY | INTERPOLATED

datatype accessor =
  Fn_getPosition | Fn_setPosition
| Fn_getRotation | Fn_setRotation
| Fn_getScale | Fn_setScale
| Fn_getBoundingRadius | Fn_setBoundingRadius

datatype Variable =
  Variable_Vec3 nat "VariableFlag set" accessor accessor
| Variable_Quaternion nat "VariableFlag set" accessor accessor bool
| Variable_Float nat "VariableFlag set" accessor accessor

definition push :: "'a list \<Rightarrow> 'a \<Rightarrow> 'a list" where
  "push xs x = xs @ [x]"

definition declareVariables ::
  "(Variable list \<Rightarrow> Variable list) \<Rightarrow> tags \<Rightarrow> Variable list \<Rightarrow> Variable list" where
  "declareVariables EntityState_declareVariables tgs variableList =
     (let l0 = EntityState_declareVariables variableList;
          l1 = push l0 (Variable_Vec3 (tag_position tgs)
                 {UPDATED_FREQUENTLY, INTERPOLATED} Fn_getPosition Fn_setPosition);
          l2 = push l1 (Variable_Quaternion (tag_rotation tgs)
                 {UPDATED_FREQUENTLY, INTERPOLATED} Fn_getRotation Fn_setRotation True);
          l3 = push l2 (Variable_Vec3 (tag_scale tgs)
                 {UPDATED_FREQUENTLY, INTERPOLATED} Fn_getScale Fn_setScale);
          l4 = push l3 (Variable_Float (tag_boundingRadius tgs)
                 {UPDATED_FREQUENTLY, INTERPOLATED} Fn_getBoundingRadius Fn_setBoundingRadius)
      in l4)"

text \<open>The fifth argument of a descriptor's constructor, when it has one.\<close>

definition normalized_arg :: "Variable \<Rightarrow> bool option" where
  "normalized_arg v = (case v of Variable_Quaternion _ _ _ _ b \<Rightarrow> Some b | _ \<Rightarrow> None)"

subsection \<open>Operations and the consistency of the caches\<close>







subsection \<open>The matrix of the specification\<close>






subsection \<open>Example stores\<close>

text \<open>
  Tags 10 to 13 with the ordinals 0 to 3. \<open>entity_A\<close> (reference 0) is a root and
  \<open>entity_B\<close> (reference 1) its child, both as their constructors leave them.
  \<open>entity_R5\<close> is a clean entity whose bounding radius is 5.
\<close>

definition example_tags :: tags where
  "example_tags = \<lparr>tag_position = 10, tag_rotation = 11, tag_scale = 12, tag_boundingRadius = 13\<rparr>"

definition example_getOrdinal :: "nat \<Rightarrow> nat" where
  "example_getOrdinal t = t - 10"

definition entity_A :: SpatialEntity where
  "entity_A = new_SpatialEntity \<lparr>parent = None, has_childTransformed = True\<rparr>
     (new_State example_tags example_getOrdinal)"

definition entity_B :: SpatialEntity where
  "entity_B = new_SpatialEntity \<lparr>parent = Some 0, has_childTransformed = False\<rparr>
     (new_State example_tags example_getOrdinal)"

definition world_AB :: world where
  "world_AB = \<lparr>objs = [0 \<mapsto> SpatialObj entity_A, 1 \<mapsto> SpatialObj entity_B],
     logged = [], notifications = []\<rparr>"

definition entity_R5 :: SpatialEntity where
  "entity_R5 =
     (let st = (new_State example_tags example_getOrdinal)\<lparr>boundingRadius := Fin 5\<rparr> in
      (new_SpatialEntity \<lparr>parent = None, has_childTransformed = False\<rparr> st)
        \<lparr>transformDirty := False, boundingSphere := sphere_of st, transform := matrix_of st\<rparr>)"

definition world_R5 :: world where
  "world_R5 = \<lparr>objs = [0 \<mapsto> SpatialObj entity_R5], logged = [], notifications = []\<rparr>"

text \<open>
  \<open>entity_M\<close> is a dirty child of \<open>entity_A\<close> that was moved to \<open>(5, 0, 0)\<close>, has the
  identity rotation \<open>(0, 0, 0, 1)\<close>, the scale \<open>(2, 1, 1)\<close> and the bounding radius 3.
  \<open>entity_P\<close> differs from it in the rotation, \<open>(1/2, 1/2, 1/2, 1/2)\<close>: the turn that
  takes the x axis to the y axis, y to z and z to x.
\<close>

definition entity_M :: SpatialEntity where
  "entity_M = new_SpatialEntity \<lparr>parent = Some 0, has_childTransformed = False\<rparr>
     ((new_State example_tags example_getOrdinal)
        \<lparr>position := Vec3 (Fin 5) (Fin 0) (Fin 0),
          rotation := Vec4 (Fin 0) (Fin 0) (Fin 0) (Fin 1),
          scale := Vec3 (Fin 2) (Fin 1) (Fin 1),
          boundingRadius := Fin 3\<rparr>)"

definition world_M :: world where
  "world_M = \<lparr>objs = [0 \<mapsto> SpatialObj entity_A, 1 \<mapsto> SpatialObj entity_M],
     logged = [], notifications = []\<rparr>"



text \<open>
  Stores reached from \<open>world_AB\<close> by setters on \<open>entity_B\<close>: in \<open>world_NaN\<close> the
  bounding radius was set to \<^verbatim>\<open>NaN\<close>; in \<open>world_big\<close> the scale was set to
  \<open>(1, 1, 1)\<close> and the bounding radius to 16777217, which is \<open>2\<^sup>2\<^sup>4 + 1\<close>; in
  \<open>world_tilt\<close> the scale was set to \<open>(1, 1, 1)\<close> and the rotation to
  \<open>(2\<^sup>-\<^sup>1\<^sup>3, 0, 0, 1)\<close>, a small turn about the x axis.
\<close>

definition world_NaN :: world where
  "world_NaN = setBoundingRadius 1 NaN world_AB"

definition world_big :: world where
  "world_big =
     setBoundingRadius 1 (Fin 16777217) (setScale 1 (Vec3 (Fin 1) (Fin 1) (Fin 1)) world_AB)"


section \<open>Properties\<close>

subsection \<open>Rounding\<close>

lemma round_half_even_of_int [simp]: "round_half_even (of_int n) = n"
  by (simp add: round_half_even_def)

lemma powr2_int: "(2::real) powr (of_int k) = 2 powi k"
  by (simp add: powr_real_of_int')

lemma powr2_int1: "(2::real) powr (of_int k + 1) = 2 powi (k + 1)"
  using powr2_int [of "k + 1"] by simp

lemma floor_log2_bounds:
  assumes "x \<noteq> 0"
  shows "2 powi \<lfloor>log 2 \<bar>x\<bar>\<rfloor> \<le> \<bar>x\<bar>" and "\<bar>x\<bar> < 2 powi (\<lfloor>log 2 \<bar>x\<bar>\<rfloor> + 1)"
proof -
  have "0 < \<bar>x\<bar>" using assms by simp
  from floor_log_eq_powr_iff [OF this, of 2 "\<lfloor>log 2 \<bar>x\<bar>\<rfloor>"]
  have "2 powr (of_int \<lfloor>log 2 \<bar>x\<bar>\<rfloor>) \<le> \<bar>x\<bar> \<and> \<bar>x\<bar> < 2 powr (of_int (\<lfloor>log 2 \<bar>x\<bar>\<rfloor> + 1))"
    by simp
  then show "2 powi \<lfloor>log 2 \<bar>x\<bar>\<rfloor> \<le> \<bar>x\<bar>" and "\<bar>x\<bar> < 2 powi (\<lfloor>log 2 \<bar>x\<bar>\<rfloor> + 1)"
    by (simp_all add: powr2_int powr2_int1)
qed

lemma floor_log2_eqI:
  assumes "2 powi k \<le> \<bar>x\<bar>" and "\<bar>x\<bar> < 2 powi (k + 1)"
  shows "\<lfloor>log 2 \<bar>x\<bar>\<rfloor> = k"
proof -
  have "0 < \<bar>x\<bar>" using assms(1) by (smt (verit) zero_less_power_int)
  from floor_log_eq_powr_iff [OF this, of 2 k] assms show ?thesis
    by (simp add: powr2_int powr2_int1)
qed


lemma pow2_less_D: "(2::real) powi a < 2 powi b \<Longrightarrow> a < b"
  using power_int_increasing [of b a "2::real"] by (cases "a < b") auto

lemma round_to_eval:
  assumes "x \<noteq> 0" and "2 powi k \<le> \<bar>x\<bar>" and "\<bar>x\<bar> < 2 powi (k + 1)"
  shows "round_to p emin emax x =
     (let e = max emin k;
          q = 2 powi (e - p + 1);
          y = of_int (round_half_even (x / q)) * q
      in if 2 powi (emax + 1) \<le> \<bar>y\<bar> then (if 0 < x then PInf else NInf) else Fin y)"
  using assms(1) by (simp add: round_to_def floor_log2_eqI [OF assms(2,3)])

lemma round_to_exact:
  assumes x: "x = of_int n * 2 powi j"
    and n: "of_int \<bar>n\<bar> < (2::real) powi p"
    and j: "emin - p + 1 \<le> j"
    and m: "\<bar>x\<bar> < 2 powi (emax + 1)"
  shows "round_to p emin emax x = Fin x"
proof (cases "x = 0")
  case True
  then show ?thesis by (simp add: round_to_def)
next
  case False
  define k where "k = \<lfloor>log 2 \<bar>x\<bar>\<rfloor>"
  define e where "e = max emin k"
  define q :: real where "q = 2 powi (e - p + 1)"
  have k1: "2 powi k \<le> \<bar>x\<bar>"
    unfolding k_def by (rule floor_log2_bounds(1) [OF False])
  have "\<bar>x\<bar> = of_int \<bar>n\<bar> * 2 powi j"
    by (simp add: x abs_mult)
  also have "\<dots> < 2 powi p * 2 powi j"
    using n by (simp add: mult_strict_right_mono)
  also have "\<dots> = 2 powi (p + j)"
    by (simp add: power_int_add)
  finally have "(2::real) powi k < 2 powi (p + j)"
    using k1 by simp
  then have "k < p + j"
    by (rule pow2_less_D)
  with j have ej: "e - p + 1 \<le> j"
    by (simp add: e_def)
  define d where "d = j - (e - p + 1)"
  have d0: "0 \<le> d"
    using ej by (simp add: d_def)
  have jd: "j = (e - p + 1) + d"
    by (simp add: d_def)
  have q0: "0 < q"
    by (simp add: q_def)
  have "(2::real) powi j = 2 powi (e - p + 1) * 2 powi d"
    unfolding jd by (rule power_int_add) simp
  also have "(2::real) powi d = of_int (2 ^ nat d)"
    using d0 by (simp add: power_int_def)
  finally have "x = of_int (n * 2 ^ nat d) * q"
    unfolding x q_def by simp
  then have xq: "x / q = of_int (n * 2 ^ nat d)"
    using q0 by simp
  have "of_int (round_half_even (x / q)) * q = of_int (n * 2 ^ nat d) * q"
    unfolding xq round_half_even_of_int ..
  also have "\<dots> = x"
    using \<open>x = of_int (n * 2 ^ nat d) * q\<close> by simp
  finally have y: "of_int (round_half_even (x / q)) * q = x" .
  have "round_to p emin emax x =
     (if 2 powi (emax + 1) \<le> \<bar>of_int (round_half_even (x / q)) * q\<bar>
      then (if 0 < x then PInf else NInf) else Fin (of_int (round_half_even (x / q)) * q))"
    using False unfolding round_to_def q_def e_def k_def by (simp add: Let_def)
  also have "\<dots> = Fin x"
    unfolding y using m by simp
  finally show ?thesis .
qed


lemma round_half_even_bounds: "\<lfloor>t\<rfloor> \<le> round_half_even t" "round_half_even t \<le> \<lceil>t\<rceil>"
proof -
  show "\<lfloor>t\<rfloor> \<le> round_half_even t"
    by (simp add: round_half_even_def Let_def)
  have "\<lfloor>t\<rfloor> + 1 \<le> \<lceil>t\<rceil>" if "t - of_int \<lfloor>t\<rfloor> \<noteq> 0"
    using that by (simp add: ceiling_altdef)
  then show "round_half_even t \<le> \<lceil>t\<rceil>"
    by (auto simp: round_half_even_def Let_def)
qed

lemma round_half_even_abs_le:
  assumes "\<bar>t\<bar> < of_int N"
  shows "\<bar>round_half_even t\<bar> \<le> N"
proof -
  from assms have "- of_int N < t" "t < of_int N" by auto
  then have "- N \<le> \<lfloor>t\<rfloor>" "\<lceil>t\<rceil> \<le> N"
    by (simp_all add: le_floor_iff ceiling_le_iff)
  with round_half_even_bounds [of t] show ?thesis by linarith
qed

lemma round_to_repr:
  assumes p: "1 \<le> p" and r: "round_to p emin emax x = Fin y"
  shows "\<exists>n j. y = of_int n * 2 powi j \<and> of_int \<bar>n\<bar> < (2::real) powi p \<and>
    emin - p + 1 \<le> j \<and> \<bar>y\<bar> < 2 powi (emax + 1)"
proof (cases "x = 0")
  case True
  with r have "y = of_int 0 * 2 powi (emin - p + 1)"
    by (simp add: round_to_def)
  moreover have "of_int \<bar>0::int\<bar> < (2::real) powi p" by simp
  moreover have "\<bar>y\<bar> < 2 powi (emax + 1)"
    using r True by (simp add: round_to_def)
  ultimately show ?thesis by blast
next
  case False
  define k where "k = \<lfloor>log 2 \<bar>x\<bar>\<rfloor>"
  define e where "e = max emin k"
  define q :: real where "q = 2 powi (e - p + 1)"
  define m where "m = round_half_even (x / q)"
  have q0: "0 < q" by (simp add: q_def)
  have rt: "round_to p emin emax x =
     (if 2 powi (emax + 1) \<le> \<bar>of_int m * q\<bar>
      then (if 0 < x then PInf else NInf) else Fin (of_int m * q))"
    using False unfolding round_to_def m_def q_def e_def k_def by (simp add: Let_def)
  with r have y: "y = of_int m * q" and ym: "\<bar>y\<bar> < 2 powi (emax + 1)"
    by (auto split: if_splits)
  have "\<bar>x\<bar> < 2 powi (k + 1)"
    unfolding k_def by (rule floor_log2_bounds(2) [OF False])
  also have "(2::real) powi (k + 1) \<le> 2 powi (e + 1)"
    by (rule power_int_increasing) (simp_all add: e_def)
  also have eq: "(2::real) powi (e + 1) = 2 powi p * q"
    unfolding q_def by (simp flip: power_int_add)
  finally have "\<bar>x / q\<bar> < 2 powi p"
    using q0 by (simp add: pos_divide_less_eq abs_of_pos [of q])
  moreover have pp: "(2::real) powi p = of_int (2 ^ nat p)"
    using p by (simp add: power_int_def)
  ultimately have "\<bar>x / q\<bar> < of_int (2 ^ nat p)"
    by simp
  then have mle: "\<bar>m\<bar> \<le> 2 ^ nat p"
    unfolding m_def by (rule round_half_even_abs_le)
  have je: "emin - p + 1 \<le> e - p + 1" "emin - p + 1 \<le> e + 1"
    using p by (simp_all add: e_def)
  show ?thesis
  proof (cases "\<bar>m\<bar> < 2 ^ nat p")
    case True
    then have "of_int \<bar>m\<bar> < (2::real) powi p"
      unfolding pp by (simp only: of_int_less_iff)
    with y je(1) ym show ?thesis
      unfolding q_def by blast
  next
    case False
    with mle have "\<bar>m\<bar> = 2 ^ nat p" by simp
    then have "m = 2 ^ nat p \<or> m = - (2 ^ nat p)" by linarith
    then have "of_int m = (2::real) powi p \<or> of_int m = - ((2::real) powi p)"
      unfolding pp by auto
    then have "y = of_int 1 * 2 powi (e + 1) \<or> y = of_int (- 1) * 2 powi (e + 1)"
      unfolding y eq by auto
    moreover have "of_int \<bar>1::int\<bar> < (2::real) powi p" "of_int \<bar>- 1::int\<bar> < (2::real) powi p"
      using p unfolding pp by simp_all
    ultimately show ?thesis
      using je(2) ym by blast
  qed
qed

lemma round_to_idem:
  assumes "1 \<le> p" and "round_to p emin emax x = Fin y"
  shows "round_to p emin emax y = Fin y"
proof -
  from round_to_repr [OF assms] obtain n j where
    "y = of_int n * 2 powi j" "of_int \<bar>n\<bar> < (2::real) powi p"
    "emin - p + 1 \<le> j" "\<bar>y\<bar> < 2 powi (emax + 1)"
    by blast
  then show ?thesis by (rule round_to_exact)
qed

lemma fround_idem: "fround (fround x) = fround x"
proof (cases x)
  case (Fin r)
  show ?thesis
  proof (cases "fround_real r")
    case (Fin y)
    from round_to_idem [OF _ this [unfolded fround_real_def]]
    have "fround_real y = Fin y" by (simp add: fround_real_def)
    with Fin \<open>x = Fin r\<close> show ?thesis by (simp add: fround_def)
  qed (simp_all add: fround_def \<open>x = Fin r\<close>)
qed (simp_all add: fround_def)



lemma round_to_of_int:
  assumes "of_int \<bar>n\<bar> < (2::real) powi p" and "emin - p + 1 \<le> 0"
    and "\<bar>of_int n\<bar> < (2::real) powi (emax + 1)"
  shows "round_to p emin emax (of_int n) = Fin (of_int n)"
  using round_to_exact [of "of_int n" n 0 p emin emax] assms by simp

lemma dround_of_int:
  assumes "\<bar>n\<bar> < 9007199254740992"
  shows "dround (of_int n) = Fin (of_int n)"
proof -
  have a: "real_of_int \<bar>n\<bar> < 2 powi 53"
    using assms by simp
  have "(2::real) powi 53 \<le> 2 powi (1023 + 1)"
    by (rule power_int_increasing) simp_all
  with a have b: "\<bar>real_of_int n\<bar> < 2 powi (1023 + 1)"
    by simp
  show ?thesis
    unfolding dround_def by (rule round_to_of_int [OF a _ b]) simp
qed

lemma fround_of_int:
  assumes "\<bar>n\<bar> < 16777216"
  shows "fround (Fin (of_int n)) = Fin (of_int n)"
proof -
  have a: "real_of_int \<bar>n\<bar> < 2 powi 24"
    using assms by simp
  have "(2::real) powi 24 \<le> 2 powi (127 + 1)"
    by (rule power_int_increasing) simp_all
  with a have b: "\<bar>real_of_int n\<bar> < 2 powi (127 + 1)"
    by simp
  show ?thesis
    unfolding fround_def fround_real_def number.case
    by (rule round_to_of_int [OF a _ b]) simp
qed


lemma fround_half: "fround (Fin (1 / 2)) = Fin (1 / 2)"
  unfolding fround_def fround_real_def number.case
  by (rule round_to_exact [of _ 1 "- 1"]) (simp_all add: power_int_minus_divide)

lemma fround_16777217: "fround (Fin 16777217) = Fin 16777216"
  unfolding fround_def fround_real_def number.case
  by (subst round_to_eval [where k = 24]) (simp_all add: round_half_even_def Let_def)


lemma dround_near_one: "dround (33554431 / 33554432) = Fin (33554431 / 33554432)"
  unfolding dround_def
  by (rule round_to_exact [of _ 33554431 "- 25"]) (simp_all add: power_int_minus_divide)


lemma dround_0 [simp]: "dround 0 = Fin 0"
  by (simp add: dround_def round_to_def)

lemma dround_1 [simp]: "dround 1 = Fin 1"
  using dround_of_int [of 1] by simp

lemma dround_numeral [simp]:
  "(numeral v :: int) < 9007199254740992 \<Longrightarrow> dround (numeral v) = Fin (numeral v)"
  using dround_of_int [of "numeral v"] by simp

lemma fround_0 [simp]: "fround (Fin 0) = Fin 0"
  using fround_of_int [of 0] by simp

lemma fround_1 [simp]: "fround (Fin 1) = Fin 1"
  using fround_of_int [of 1] by simp

lemma fround_numeral [simp]:
  "(numeral v :: int) < 16777216 \<Longrightarrow> fround (Fin (numeral v)) = Fin (numeral v)"
  using fround_of_int [of "numeral v"] by simp

lemma fround_special [simp]: "fround NaN = NaN" "fround PInf = PInf" "fround NInf = NInf"
  by (simp_all add: fround_def)

lemma finite32_simps [simp]:
  "finite32 (Fin 0)" "finite32 (Fin 1)" "finite32 (Fin (1 / 2))"
  "(numeral v :: int) < 16777216 \<Longrightarrow> finite32 (Fin (numeral v))"
  using fround_0 fround_1 fround_half fround_numeral [of v]
  by (simp_all add: finite32_def fround_def)

lemma js_Fin [simp]:
  "js_mul (Fin x) (Fin y) = dround (x * y)"
  "js_add (Fin x) (Fin y) = dround (x + y)"
  "js_sub (Fin x) (Fin y) = dround (x - y)"
  "js_max (Fin x) (Fin y) = Fin (max x y)"
  "js_eq (Fin x) (Fin y) \<longleftrightarrow> x = y"
  by (simp_all add: js_mul_def js_add_def js_sub_def js_neg_def js_max_def js_eq_def)

subsection \<open>What each operation does to the store\<close>

lemmas example_defs = example_tags_def example_getOrdinal_def entity_A_def entity_B_def
  world_AB_def entity_R5_def world_R5_def new_State_def new_SpatialEntity_def Let_def

lemmas setter_defs = js_loose_neq_def js_not_def js_ToNumber_def setVariableDirty_def
  invalidateTransform_entity_def log_write_def

lemma spatial_SomeD: "spatial w r = Some e \<Longrightarrow> objs w r = Some (SpatialObj e)"
  by (auto simp: spatial_def split: option.splits obj.splits)

lemma spatial_upd:
  "spatial (w'\<lparr>objs := (objs w)(this \<mapsto> SpatialObj e)\<rparr>) r =
     (if r = this then Some e else spatial w r)"
  by (simp add: spatial_def)




lemma setBoundingRadius_eq:
  assumes "spatial w this = Some e"
  shows "setBoundingRadius this val w =
    (if js_eq (if js_not (boundingRadius (state e)) then Fin 1 else Fin 0) val then w
     else w\<lparr>objs := (objs w)(this \<mapsto> SpatialObj (e\<lparr>
            state := (state e)\<lparr>boundingRadius := val,
              dirtyBits := insert (boundingRadiusOrdinal (state e)) (dirtyBits (state e))\<rparr>,
            transformDirty := True\<rparr>))\<rparr>)"
  using spatial_SomeD [OF assms]
  by (simp add: setBoundingRadius_def js_loose_neq_def js_ToNumber_def setVariableDirty_def
      invalidateTransform_entity_def Let_def)

text \<open>
  A vector setter given the vector the field holds changes nothing, unless an element
  of it is \<^verbatim>\<open>NaN\<close>, which \<^verbatim>\<open>==\<close> finds different from itself.
\<close>

lemma Vec3_equals_refl: "NaN \<notin> {v0 a, v1 a, v2 a} \<Longrightarrow> Vec3_equals a a"
  by (auto simp: Vec3_equals_def js_eq_def)

lemma Vec4_equals_refl: "NaN \<notin> {q0 a, q1 a, q2 a, q3 a} \<Longrightarrow> Vec4_equals a a"
  by (auto simp: Vec4_equals_def js_eq_def)

lemma not_spatial_setters:
  assumes "spatial w this = None"
  shows "setPosition this v3 w = w" "setRotation this v4 w = w" "setScale this v3 w = w"
    "setBoundingRadius this x w = w" "postNetworkUpdate this w = w" "invalidateTransform this w = w"
    "updateTransform this w = w"
  using assms
  by (auto simp: spatial_def setPosition_def setRotation_def setScale_def setBoundingRadius_def
      postNetworkUpdate_def invalidateTransform_def updateTransform_def
      split: option.splits obj.splits)

lemma objs_notify_parent: "objs (notify_parent this w) = objs w"
  by (simp add: notify_parent_def childTransformed_def split: option.splits)

lemma spatial_notify_parent: "spatial (notify_parent this w) r = spatial w r"
  by (simp add: spatial_def objs_notify_parent)

lemma updateTransform_clean:
  "spatial w this = Some e \<Longrightarrow> \<not> transformDirty e \<Longrightarrow> updateTransform this w = w"
  by (auto simp: updateTransform_def dest: spatial_SomeD)

lemma updateTransform_dirty:
  "spatial w this = Some e \<Longrightarrow> transformDirty e \<Longrightarrow>
   updateTransform this w = notify_parent this (w\<lparr>objs := (objs w)(this \<mapsto>
     SpatialObj (e\<lparr>transformDirty := False, boundingSphere := sphere_of (state e),
       transform := matrix_of (state e)\<rparr>))\<rparr>)"
  by (auto simp: updateTransform_def Let_def dest: spatial_SomeD)

lemma spatial_updateTransform:
  "spatial (updateTransform this w) r =
    (if r = this then map_option (\<lambda>e. if transformDirty e then e\<lparr>transformDirty := False, boundingSphere := sphere_of (state e),
       transform := matrix_of (state e)\<rparr> else e) (spatial w this) else spatial w r)"
proof (cases "spatial w this")
  case None
  then show ?thesis by (simp add: not_spatial_setters)
next
  case (Some e)
  then show ?thesis 
    by (cases "transformDirty e") (simp_all add: updateTransform_clean updateTransform_dirty spatial_notify_parent spatial_upd)
qed

subsection \<open>The setters\<close>

text \<open>
  C1 (fails on the code). A setter called with the value the field holds is meant to
  change nothing. \<^verbatim>\<open>setBoundingRadius\<close> does not keep to it: on the clean entity
  \<open>entity_R5\<close>, whose bounding radius is 5 and whose dirty bits are all clear,
  \<^verbatim>\<open>setBoundingRadius(5)\<close> marks the ordinal of the bounding radius dirty and
  invalidates the transform. The same happens on a run of the operations alone: on
  \<open>entity_B\<close>, after \<^verbatim>\<open>setBoundingRadius(5)\<close> and \<^verbatim>\<open>updateTransform()\<close> the radius is
  5 and the entity clean, and a second \<^verbatim>\<open>setBoundingRadius(5)\<close> makes it dirty again.
  (The three vector setters do change nothing there: \<open>setPosition_eq\<close>,
  \<open>setRotation_eq\<close>, \<open>setScale_eq\<close> with \<open>Vec3_equals_refl\<close> and
  \<open>Vec4_equals_refl\<close>.)
\<close>

theorem setBoundingRadius_same_value_marks_dirty:
  "spatial world_R5 0 = Some entity_R5 \<and>
   boundingRadius (state entity_R5) = Fin 5 \<and>
   transformDirty entity_R5 = False \<and>
   dirtyBits (state entity_R5) = {} \<and>
   map_option transformDirty (spatial (setBoundingRadius 0 (Fin 5) world_R5) 0) = Some True \<and>
   map_option (dirtyBits \<circ> state) (spatial (setBoundingRadius 0 (Fin 5) world_R5) 0) =
     Some {boundingRadiusOrdinal (state entity_R5)} \<and>
   map_option (boundingRadius \<circ> state)
     (spatial (updateTransform 1 (setBoundingRadius 1 (Fin 5) world_AB)) 1) = Some (Fin 5) \<and>
   map_option transformDirty
     (spatial (updateTransform 1 (setBoundingRadius 1 (Fin 5) world_AB)) 1) = Some False \<and>
   map_option transformDirty
     (spatial (setBoundingRadius 1 (Fin 5) (updateTransform 1 (setBoundingRadius 1 (Fin 5) world_AB))) 1) =
     Some True"
  by (simp add: example_defs spatial_def setBoundingRadius_def setter_defs js_eq_def updateTransform_def
      notify_parent_def getParent_def exposes_childTransformed_def childTransformed_def)

text \<open>
  C2 (fails on the code). A setter called with a value other than the one the field
  holds is meant to store it, mark the ordinal dirty and invalidate the transform.
  \<^verbatim>\<open>setBoundingRadius\<close> does not keep to it: on \<open>entity_B\<close>, whose bounding radius
  is 0, \<^verbatim>\<open>setBoundingRadius(1)\<close> leaves the whole store as it was. (The three vector
  setters do all three: \<open>setPosition_eq\<close>, \<open>setRotation_eq\<close>, \<open>setScale_eq\<close>.)
\<close>

theorem setBoundingRadius_new_value_dropped:
  "spatial world_AB 1 = Some entity_B \<and>
   boundingRadius (state entity_B) = Fin 0 \<and>
   setBoundingRadius 1 (Fin 1) world_AB = world_AB"
  by (simp add: example_defs spatial_def setBoundingRadius_def setter_defs js_eq_def)

text \<open>
  C10 (as stated, fails). The claim has \<^verbatim>\<open>setBoundingRadius(0)\<close> change nothing on
  every stored radius other than 0. \<^verbatim>\<open>NaN\<close> is such a radius (\<^verbatim>\<open>NaN != 0\<close>), and
  \<^verbatim>\<open>setBoundingRadius(NaN)\<close> on a new state stores it; but \<^verbatim>\<open>!NaN\<close> is true, so on
  \<open>world_NaN\<close> \<^verbatim>\<open>setBoundingRadius(0)\<close> stores the 0 and \<^verbatim>\<open>setBoundingRadius(1)\<close> is
  the call that changes nothing.
\<close>

theorem setBoundingRadius_NaN_radius:
  "map_option (boundingRadius \<circ> state) (spatial world_NaN 1) = Some NaN \<and>
   js_eq NaN (Fin 0) = False \<and>
   map_option (boundingRadius \<circ> state) (spatial (setBoundingRadius 1 (Fin 0) world_NaN) 1) =
     Some (Fin 0) \<and>
   setBoundingRadius 1 (Fin 1) world_NaN = world_NaN"
  by (simp add: world_NaN_def example_defs spatial_def setBoundingRadius_def setter_defs js_eq_def)

text \<open>
  C10 (amended). The update branch of \<^verbatim>\<open>setBoundingRadius\<close> is taken exactly when the
  new value differs, by \<^verbatim>\<open>!=\<close>, from 1 if the stored radius is 0 or \<^verbatim>\<open>NaN\<close>, and from
  0 if the stored radius is any other number. So \<^verbatim>\<open>setBoundingRadius(1)\<close> on a radius
  that is 0 or \<^verbatim>\<open>NaN\<close>, and \<^verbatim>\<open>setBoundingRadius(0)\<close> on any other radius, change
  nothing; every other call, the one that passes the stored radius among them, stores
  the value, marks the ordinal dirty and invalidates the transform.
\<close>

theorem setBoundingRadius_update_branch:
  assumes "spatial w this = Some e"
  shows "setBoundingRadius this val w =
      (if \<not> js_eq (if boundingRadius (state e) = Fin 0 \<or> boundingRadius (state e) = NaN
                    then Fin 1 else Fin 0) val then
         w\<lparr>objs := (objs w)(this \<mapsto> SpatialObj (e\<lparr>
            state := (state e)\<lparr>boundingRadius := val,
              dirtyBits := insert (boundingRadiusOrdinal (state e)) (dirtyBits (state e))\<rparr>,
            transformDirty := True\<rparr>))\<rparr>
       else w)
    \<and> (boundingRadius (state e) = Fin 0 \<or> boundingRadius (state e) = NaN \<longrightarrow>
          setBoundingRadius this (Fin 1) w = w)
    \<and> (boundingRadius (state e) \<noteq> Fin 0 \<and> boundingRadius (state e) \<noteq> NaN \<longrightarrow>
          setBoundingRadius this (Fin 0) w = w)
    \<and> setBoundingRadius this (boundingRadius (state e)) w =
         w\<lparr>objs := (objs w)(this \<mapsto> SpatialObj (e\<lparr>
            state := (state e)\<lparr>boundingRadius := boundingRadius (state e),
              dirtyBits := insert (boundingRadiusOrdinal (state e)) (dirtyBits (state e))\<rparr>,
            transformDirty := True\<rparr>))\<rparr>"
  by (auto simp add: setBoundingRadius_eq [OF assms] js_not_def js_eq_def)

theorem setBoundingRadius_update_branch_witness:
  "spatial world_R5 0 = Some entity_R5 \<and>
   boundingRadius (state entity_R5) \<noteq> Fin 0 \<and>
   boundingRadius (state entity_R5) \<noteq> NaN \<and>
   setBoundingRadius 0 (Fin 0) world_R5 = world_R5 \<and>
   map_option (boundingRadius \<circ> state) (spatial (setBoundingRadius 0 (Fin 7) world_R5) 0) =
     Some (Fin 7)"
proof -
  have h: "spatial world_R5 0 = Some entity_R5"
    by (simp add: example_defs spatial_def)
  have r: "boundingRadius (state entity_R5) \<noteq> Fin 0 \<and> boundingRadius (state entity_R5) \<noteq> NaN"
    by (simp add: example_defs)
  from setBoundingRadius_update_branch [OF h, of "Fin 0"] r
  have a: "setBoundingRadius 0 (Fin 0) world_R5 = world_R5"
    by simp
  from setBoundingRadius_update_branch [OF h, of "Fin 7"] r
  have b: "map_option (boundingRadius \<circ> state) (spatial (setBoundingRadius 0 (Fin 7) world_R5) 0) =
      Some (Fin 7)"
    by (simp add: spatial_def js_eq_def)
  from h r a b show ?thesis by simp
qed

subsection \<open>The cached transform and bounding sphere\<close>

lemma updateTransform_idem: "updateTransform this (updateTransform this w) = updateTransform this w"
proof (cases "spatial w this")
  case None
  then show ?thesis by (simp add: not_spatial_setters)
next
  case (Some e)
  show ?thesis
  proof (cases "transformDirty e")
    case False
    with Some show ?thesis by (simp add: updateTransform_clean)
  next
    case True
    let ?e' = "e\<lparr>transformDirty := False, boundingSphere := sphere_of (state e),
       transform := matrix_of (state e)\<rparr>"
    from Some True have "spatial (updateTransform this w) this = Some ?e'"
      by (simp add: spatial_updateTransform)
    moreover have "\<not> transformDirty ?e'" by simp
    ultimately show ?thesis by (rule updateTransform_clean)
  qed
qed

text \<open>
  C7. \<^verbatim>\<open>updateTransform\<close> on a clean entity returns at once: the store it leaves is the
  store it was given, so no cache, flag or state value changes and no call of
  \<^verbatim>\<open>childTransformed\<close> is added. Two calls in a row leave what one call leaves.
\<close>

theorem updateTransform_clean_noop:
  assumes "spatial w this = Some e"
  shows "(\<not> transformDirty e \<longrightarrow> updateTransform this w = w) \<and>
         updateTransform this (updateTransform this w) = updateTransform this w"
  using assms by (simp add: updateTransform_clean updateTransform_idem)

theorem updateTransform_clean_noop_witness:
  "spatial world_AB 1 = Some entity_B \<and>
   notifications (updateTransform 1 world_AB) = [(0, 1)] \<and>
   updateTransform 1 (updateTransform 1 world_AB) = updateTransform 1 world_AB \<and>
   notifications (updateTransform 1 (updateTransform 1 world_AB)) = [(0, 1)]"
proof -
  have h: "spatial world_AB 1 = Some entity_B"
    by (simp add: world_AB_def spatial_def)
  have d: "transformDirty entity_B"
    by (simp add: entity_B_def new_SpatialEntity_def)
  have n: "notifications (updateTransform 1 world_AB) = [(0, 1)]"
    by (simp add: updateTransform_def notify_parent_def world_AB_def getParent_def
        exposes_childTransformed_def childTransformed_def entity_A_def entity_B_def
        new_SpatialEntity_def Let_def)
  from updateTransform_clean_noop [OF h]
  have i: "updateTransform 1 (updateTransform 1 world_AB) = updateTransform 1 world_AB"
    by simp
  from h n i show ?thesis by simp
qed

lemma Vec4_setFromArray_sphere_of: "Vec4_setFromArray result (sphere_of st) = sphere_of st"
  by (simp add: Vec4_setFromArray_def sphere_of_def Let_def fround_idem)

text \<open>
  C5 (as stated, fails). The claim gives the cached radius as the product
  \<open>boundingRadius * max (scale.x, scale.y, scale.z)\<close> for every value. The sphere is a
  \<^verbatim>\<open>Float32Array\<close> and the radius of the state a number, so line 113 stores the product
  rounded to binary32: in \<open>world_big\<close> the product is 16777217 and the cached radius
  16777216.
\<close>

theorem updateTransform_radius_rounded:
  "map_option (boundingRadius \<circ> state) (spatial world_big 1) = Some (Fin 16777217) \<and>
   map_option (scale \<circ> state) (spatial world_big 1) = Some (Vec3 (Fin 1) (Fin 1) (Fin 1)) \<and>
   map_option transformDirty (spatial world_big 1) = Some True \<and>
   js_mul (Fin 16777217) (js_max (Fin 1) (js_max (Fin 1) (Fin 1))) = Fin 16777217 \<and>
   map_option (q3 \<circ> boundingSphere) (spatial (updateTransform 1 world_big) 1) =
     Some (Fin 16777216)"
  by (simp add: world_big_def example_defs spatial_def setBoundingRadius_def setScale_def
      setter_defs Vec3_equals_def Vec3_setFromArray_def Vec3_createFloat32_def
      updateTransform_def notify_parent_def getParent_def exposes_childTransformed_def
      childTransformed_def sphere_of_def getPosition_def getScale_def getBoundingRadius_def
      fround_16777217)

text \<open>
  C5 (amended). \<^verbatim>\<open>updateTransform\<close> on a dirty entity leaves the entity clean, the
  state as it was, and the cached sphere with the position, as a \<^verbatim>\<open>Float32Array\<close>
  holds it, as its centre and, as its radius, the product
  \<open>boundingRadius * max (scale.x, scale.y, scale.z)\<close> of two numbers rounded to
  binary32; the radius is the product itself when the product is a binary32 value.
  \<^verbatim>\<open>getBoundingSphere\<close>, called after it or in its place, returns that sphere in the
  array it was given.
\<close>

theorem updateTransform_bounding_sphere:
  assumes "spatial w this = Some e" and "transformDirty e"
  shows "\<exists>e'. spatial (updateTransform this w) this = Some e' \<and>
     state e' = state e \<and> \<not> transformDirty e' \<and>
     boundingSphere e' =
       Vec4 (fround (v0 (position (state e)))) (fround (v1 (position (state e))))
         (fround (v2 (position (state e))))
         (fround (js_mul (boundingRadius (state e))
            (js_max (v0 (scale (state e)))
               (js_max (v1 (scale (state e))) (v2 (scale (state e))))))) \<and>
     (fround (v0 (position (state e))) = v0 (position (state e)) \<and>
      fround (v1 (position (state e))) = v1 (position (state e)) \<and>
      fround (v2 (position (state e))) = v2 (position (state e)) \<longrightarrow>
        Vec3 (q0 (boundingSphere e')) (q1 (boundingSphere e')) (q2 (boundingSphere e')) =
          position (state e)) \<and>
     (finite32 (js_mul (boundingRadius (state e))
            (js_max (v0 (scale (state e)))
               (js_max (v1 (scale (state e))) (v2 (scale (state e)))))) \<longrightarrow>
        q3 (boundingSphere e') =
          js_mul (boundingRadius (state e))
            (js_max (v0 (scale (state e)))
               (js_max (v1 (scale (state e))) (v2 (scale (state e)))))) \<and>
     getBoundingSphere this result (updateTransform this w) =
       (updateTransform this w, boundingSphere e') \<and>
     getBoundingSphere this result w = (updateTransform this w, boundingSphere e')"
proof -
  let ?e' = "e\<lparr>transformDirty := False, boundingSphere := sphere_of (state e),
       transform := matrix_of (state e)\<rparr>"
  let ?r = "js_mul (boundingRadius (state e))
            (js_max (v0 (scale (state e)))
               (js_max (v1 (scale (state e))) (v2 (scale (state e)))))"
  have s: "spatial (updateTransform this w) this = Some ?e'"
    using assms by (simp add: spatial_updateTransform)
  have b: "boundingSphere ?e' =
       Vec4 (fround (v0 (position (state e)))) (fround (v1 (position (state e))))
         (fround (v2 (position (state e)))) (fround ?r)"
    by (simp add: sphere_of_def getPosition_def getScale_def getBoundingRadius_def Let_def)
  have c: "Vec3 (q0 (boundingSphere ?e')) (q1 (boundingSphere ?e')) (q2 (boundingSphere ?e')) =
          position (state e)"
    if "fround (v0 (position (state e))) = v0 (position (state e)) \<and>
      fround (v1 (position (state e))) = v1 (position (state e)) \<and>
      fround (v2 (position (state e))) = v2 (position (state e))"
    unfolding b using that by (cases "position (state e)") simp
  have r: "q3 (boundingSphere ?e') = ?r" if "finite32 ?r"
    unfolding b using that by (cases ?r) (simp_all add: finite32_def fround_def)
  have g1: "getBoundingSphere this result (updateTransform this w) =
       (updateTransform this w, boundingSphere ?e')"
    using s by (simp add: getBoundingSphere_def updateTransform_clean [OF s]
        Vec4_setFromArray_sphere_of)
  have g2: "getBoundingSphere this result w = (updateTransform this w, boundingSphere ?e')"
    using assms s by (simp add: getBoundingSphere_def Vec4_setFromArray_sphere_of)
  from s b c r g1 g2 show ?thesis
    by (intro exI [of _ ?e']) simp
qed

theorem updateTransform_bounding_sphere_witness:
  "spatial world_M 1 = Some entity_M \<and> transformDirty entity_M \<and>
   snd (getBoundingSphere 1 Vec4_createFloat32 world_M) = Vec4 (Fin 5) (Fin 0) (Fin 0) (Fin 6)"
proof -
  have h: "spatial world_M 1 = Some entity_M"
    by (simp add: world_M_def spatial_def)
  have d: "transformDirty entity_M"
    by (simp add: entity_M_def new_SpatialEntity_def)
  from updateTransform_bounding_sphere [OF h d, of Vec4_createFloat32]
  have "snd (getBoundingSphere 1 Vec4_createFloat32 world_M) =
      Vec4 (Fin 5) (Fin 0) (Fin 0) (Fin 6)"
    by (auto simp: entity_M_def new_SpatialEntity_def new_State_def)
  with h d show ?thesis by simp
qed













subsection \<open>The constructor of the state\<close>

text \<open>
  C8 (as stated, fails). The claim gives \<open>(1, 1, 1)\<close> as the scale of a new state. The
  constructor builds it with \<^verbatim>\<open>goog.vec.Vec3.createFloat32()\<close>, as it builds the
  position, so it is not \<open>(1, 1, 1)\<close>.
\<close>

theorem new_State_scale_not_one:
  "scale (new_State example_tags example_getOrdinal) \<noteq> Vec3 (Fin 1) (Fin 1) (Fin 1)"
  by (simp add: new_State_def Vec3_createFloat32_def)

text \<open>
  C8 (amended). The scale of a newly constructed state is the zero vector \<open>(0, 0, 0)\<close>.
\<close>

theorem new_State_scale_zero:
  "scale (new_State tgs getOrdinal) = Vec3 (Fin 0) (Fin 0) (Fin 0)"
  by (simp add: new_State_def Vec3_createFloat32_def)

subsection \<open>The declaration of the variables\<close>

text \<open>
  C9. \<^verbatim>\<open>declareVariables\<close> leaves the list the declaration of the base class leaves,
  followed by four descriptors in the order position, rotation, scale, boundingRadius.
  Of the four only the descriptor of the rotation is built with a fifth argument, and
  the argument is \<^verbatim>\<open>true\<close>.
\<close>

theorem declareVariables_order:
  "declareVariables EntityState_declareVariables tgs variableList =
     EntityState_declareVariables variableList @
     [Variable_Vec3 (tag_position tgs) {UPDATED_FREQUENTLY, INTERPOLATED} Fn_getPosition Fn_setPosition,
      Variable_Quaternion (tag_rotation tgs) {UPDATED_FREQUENTLY, INTERPOLATED} Fn_getRotation Fn_setRotation True,
      Variable_Vec3 (tag_scale tgs) {UPDATED_FREQUENTLY, INTERPOLATED} Fn_getScale Fn_setScale,
      Variable_Float (tag_boundingRadius tgs) {UPDATED_FREQUENTLY, INTERPOLATED} Fn_getBoundingRadius Fn_setBoundingRadius] \<and>
   map normalized_arg
     (drop (length (EntityState_declareVariables variableList))
        (declareVariables EntityState_declareVariables tgs variableList)) =
     [None, Some True, None, None]"
  by (simp add: declareVariables_def push_def normalized_arg_def Let_def)

subsection \<open>The walk up the tree\<close>

lemma walk_returns_only_if:
  assumes "getTransform_walk w this untilParent current result = Some y"
  shows "current = untilParent \<or> parent_of w this = untilParent"
proof -
  let ?P = "\<lambda>w this untilParent current (result::mat4) (y::mat4).
    current = untilParent \<or> parent_of w this = untilParent"
  have "?P w this untilParent current result y"
  proof (rule getTransform_walk.raw_induct [where P = ?P, OF _ assms])
    fix walk w this untilParent current result y
    assume IH: "\<And>w this untilParent current result y.
             walk w this untilParent current result = Some y \<Longrightarrow>
             current = untilParent \<or> parent_of w this = untilParent"
      and step: "(if current \<noteq> untilParent
            then walk w this untilParent (parent_of w this) (apply_ancestor w current result)
            else Some result) = Some y"
    show "current = untilParent \<or> parent_of w this = untilParent"
    proof (cases "current = untilParent")
      case True
      then show ?thesis by simp
    next
      case False
      with step have "walk w this untilParent (parent_of w this) (apply_ancestor w current result) = Some y"
        by simp
      from IH [OF this] show ?thesis by simp
    qed
  qed
  then show ?thesis .
qed

lemma walk_diverges:
  assumes "parent_of w this \<noteq> untilParent"
  shows "getTransform_walk w this untilParent (parent_of w this) result = None"
proof (cases "getTransform_walk w this untilParent (parent_of w this) result")
  case None
  then show ?thesis .
next
  case (Some y)
  from walk_returns_only_if [OF this] assms show ?thesis by simp
qed

lemma walk_returns:
  "getTransform_walk w this untilParent untilParent result = Some result"
  by (simp add: getTransform_walk.simps)

lemma parent_of_updateTransform: "parent_of (updateTransform this w) r = parent_of w r"
proof (cases "spatial w this")
  case None
  then show ?thesis by (simp add: not_spatial_setters)
next
  case (Some e)
  then show ?thesis
    by (cases "transformDirty e")
      (auto simp: updateTransform_clean updateTransform_dirty parent_of_def objs_notify_parent
        getParent_def dest: spatial_SomeD)
qed

lemma parent_of_spatial: "spatial w r = Some e \<Longrightarrow> parent_of w r = parent e"
  by (auto simp: parent_of_def getParent_def dest: spatial_SomeD)

text \<open>
  \<^verbatim>\<open>getTransform\<close> returns exactly when the parent of \<open>this\<close> is the relative parent
  (or there is neither); the matrix it then returns is the entity's own.
\<close>

lemma getTransform_eq:
  assumes "spatial w this = Some e"
  shows "getTransform this result rel w =
    (if parent e = rel then
       Some (if transformDirty e then updateTransform this w else w,
             Mat4_setFromArray result
               (if transformDirty e then matrix_of (state e) else transform e))
     else None)"
proof -
  let ?w1 = "if transformDirty e then updateTransform this w else w"
  let ?e1 = "if transformDirty e then e\<lparr>transformDirty := False,
      boundingSphere := sphere_of (state e), transform := matrix_of (state e)\<rparr> else e"
  have s1: "spatial ?w1 this = Some ?e1"
    using assms by (simp add: spatial_updateTransform)
  have p1: "parent_of ?w1 this = parent e"
    using assms by (simp add: parent_of_updateTransform parent_of_spatial)
  have g: "getTransform this result rel w =
     map_option (Pair ?w1) (getTransform_walk ?w1 this rel (parent_of ?w1 this)
       (Mat4_setFromArray result (transform ?e1)))"
    using assms s1 unfolding getTransform_def
    by (simp add: Let_def cong: if_cong)
  show ?thesis
  proof (cases "parent e = rel")
    case True
    with p1 have "getTransform_walk ?w1 this rel (parent_of ?w1 this)
        (Mat4_setFromArray result (transform ?e1)) =
      Some (Mat4_setFromArray result (transform ?e1))"
      by (simp only: walk_returns)
    with g True show ?thesis by simp
  next
    case False
    with p1 have "parent_of ?w1 this \<noteq> rel" by simp
    from walk_diverges [OF this] g False show ?thesis by simp
  qed
qed

text \<open>
  C4 (fails on the code). For a child whose parent is a root, \<^verbatim>\<open>getTransform(result)\<close>
  without a relative parent is meant to return the parent's transform times the
  child's. In \<open>world_AB\<close> the entity 1 is such a child of the root 0, and the call does
  not return: line 175 reads \<^verbatim>\<open>this.getParent()\<close> again, so \<^verbatim>\<open>current\<close> stays the
  parent and never becomes \<^verbatim>\<open>null\<close>.
\<close>

theorem getTransform_child_never_returns:
  "spatial world_AB 0 = Some entity_A \<and> parent entity_A = None \<and>
   spatial world_AB 1 = Some entity_B \<and> parent entity_B = Some 0 \<and>
   getTransform 1 Mat4_createFloat32 None world_AB = None"
proof -
  have h: "spatial world_AB 1 = Some entity_B"
    by (simp add: world_AB_def spatial_def)
  have p: "parent entity_B = Some 0"
    by (simp add: entity_B_def new_SpatialEntity_def)
  have "getTransform 1 Mat4_createFloat32 None world_AB = None"
    using getTransform_eq [OF h, of Mat4_createFloat32 None] p by simp
  moreover have "spatial world_AB 0 = Some entity_A" "parent entity_A = None"
    by (simp_all add: world_AB_def spatial_def entity_A_def new_SpatialEntity_def)
  ultimately show ?thesis using h p by simp
qed

subsection \<open>The invariant of the caches\<close>











end
